theory Spec2Isabelle
  imports Complex_Main
begin

section \<open>Data model\<close>

text \<open>
  The coupon service of \<^verbatim>\<open>src/functions/coupons\<close>: six request handlers over two
  Firestore collections (\<^verbatim>\<open>sites\<close>, \<^verbatim>\<open>coupons\<close>), with the pure helpers of
  \<^verbatim>\<open>helpers.ts\<close>.

  Modelling conventions.
  \<^item> A JavaScript \<^verbatim>\<open>number\<close> that holds money or a percentage is the rational it denotes
    (every finite double is one; \<open>isDouble\<close> tells the doubles among the rationals). The
    arithmetic the code does on such numbers (\<^verbatim>\<open>*\<close>, \<^verbatim>\<open>/\<close> and \<^verbatim>\<open>-\<close>) rounds the exact
    result to the nearest double, a tie going to the even significand, as IEEE 754
    binary64 does; comparisons, \<^verbatim>\<open>Math.min\<close>, \<^verbatim>\<open>Math.max\<close> and \<^verbatim>\<open>Math.round\<close> are exact.
    The exponent is not bounded: \<^verbatim>\<open>NaN\<close>, the overflow to an infinity (at \<open>2 ^ 1024\<close>) and
    the gradual underflow (below \<open>2 ^ -1022\<close>) are outside the model. The two counters
    \<^verbatim>\<open>usedCount\<close> and \<^verbatim>\<open>maxUses\<close>, which the schema and the increment keep whole (and
    which stay far below \<open>2 ^ 53\<close>, where a double stops telling \<open>n\<close> from \<open>n + 1\<close>), are
    integers.
  \<^item> An ISO-8601 date string that has passed the schema is the instant it denotes
    (milliseconds since the epoch, an \<^typ>\<open>int\<close>); \<^verbatim>\<open>new Date()\<close> is a parameter \<open>now\<close>,
    read once per request.
  \<^item> A string is a byte string.
  \<^item> The text of an error message is kept symbolically (\<open>message\<close>).
\<close>

type_synonym number = rat
type_synonym instant = int

datatype DiscountType = percentage | fixed

text \<open>\<^verbatim>\<open>types/common.ts\<close>: the error taxonomy and the response envelope.\<close>

datatype ErrorCode =
    INVALID_INPUT
  | SITE_NOT_FOUND
  | COUPON_NOT_FOUND
  | FORBIDDEN
  | DUPLICATE_CODE
  | COUPON_LIMIT_REACHED
  | COUPON_INACTIVE
  | COUPON_EXPIRED
  | COUPON_NOT_YET_VALID
  | COUPON_MAX_USES
  | MIN_PURCHASE_NOT_MET
  | INTERNAL_ERROR

text \<open>
  The message strings the handlers build, one constructor per literal or template of the
  source; \<open>SchemaIssues\<close> stands for \<^verbatim>\<open>formatZodError(parsed.error)\<close>, whose text is not
  modelled.
\<close>

datatype message =
    SchemaIssues
  | SitioNoEncontrado
  | LimiteAlcanzado number number
  | YaExisteCodigo string
  | CuponNoEncontrado
  | CuponNoPertenece
  | PorcentajeSupera100
  | ValidFromDebeSerAnterior
  | CuponNoActivo
  | CuponAunNoValido
  | CuponExpirado
  | CuponLimiteDeUsos
  | MontoMinimo number
  | ErrorInterno

text \<open>
  \<^verbatim>\<open>FunctionResponse<T>\<close>: \<open>Data x\<close> is \<^verbatim>\<open>{ data: x, error: null }\<close> and \<open>Failure m c\<close> is
  \<^verbatim>\<open>{ data: null, error: m, errorCode: c }\<close>.
\<close>

datatype 'a FunctionResponse = Data 'a | Failure message ErrorCode



text \<open>
  \<^verbatim>\<open>types/coupon.ts\<close>: \<^verbatim>\<open>interface Coupon\<close> and \<^verbatim>\<open>interface CouponDocument extends Coupon\<close>.
  \<open>minPurchase\<close> and \<open>maxUses\<close> are \<open>None\<close> when the stored value is \<^verbatim>\<open>null\<close> or the key
  is missing (the code tests them with \<^verbatim>\<open>!= null\<close>). A Firestore document has no schema:
  the three bookkeeping fields that no handler reads (\<open>userId\<close>, \<open>createdAt\<close>,
  \<open>updatedAt\<close>) may be missing from a stored document (\<open>None\<close>); the fields the handlers
  compute with are always present in the model, since what the code does with a missing
  one rests on JavaScript's coercion of \<^verbatim>\<open>undefined\<close>.
\<close>

record Coupon =
  code :: string
  discountType :: DiscountType
  discountValue :: number
  minPurchase :: "number option"
  maxUses :: "int option"
  usedCount :: int
  validFrom :: instant
  validUntil :: instant
  isActive :: bool

record CouponDocument = Coupon +
  id' :: string
  siteId :: string
  userId :: "string option"
  createdAt :: "instant option"
  updatedAt :: "instant option"

section \<open>The arithmetic of JavaScript numbers\<close>

text \<open>
  The nearest integer, a tie going to the even one: the rounding of a significand.
\<close>

definition roundHalfEven :: "rat \<Rightarrow> int" where
  "roundHalfEven y =
     (let f = \<lfloor>y\<rfloor>; r = y - of_int f
      in if r < 1 / 2 then f else if 1 / 2 < r then f + 1 else if even f then f else f + 1)"

text \<open>
  The binary exponent of a positive number: \<open>exponent x = e\<close> when
  \<open>2 ^ e \<le> x < 2 ^ (e + 1)\<close>, found by halving a number from 2 on and by doubling a
  number below 1.
\<close>

function expUp :: "rat \<Rightarrow> int" where
  "expUp x = (if 2 \<le> x then expUp (x / 2) + 1 else 0)"
  by pat_completeness auto
termination
proof (relation "measure (\<lambda>x. nat \<lfloor>x\<rfloor>)")
  show "wf (measure (\<lambda>x :: rat. nat \<lfloor>x\<rfloor>))" by simp
next
  fix x :: rat
  assume a: "2 \<le> x"
  have "x / 2 \<le> x - 1" using a by simp
  then have "\<lfloor>x / 2\<rfloor> \<le> \<lfloor>x - 1\<rfloor>" by (rule floor_mono)
  then have "\<lfloor>x / 2\<rfloor> < \<lfloor>x\<rfloor>" by simp
  moreover have "0 < \<lfloor>x\<rfloor>" using a by simp
  ultimately show "(x / 2, x) \<in> measure (\<lambda>x. nat \<lfloor>x\<rfloor>)" by simp
qed

function expDown :: "rat \<Rightarrow> int" where
  "expDown x = (if 0 < x \<and> x < 1 then expDown (x * 2) - 1 else 0)"
  by pat_completeness auto
termination
proof (relation "measure (\<lambda>x. nat \<lceil>1 / x\<rceil>)")
  show "wf (measure (\<lambda>x :: rat. nat \<lceil>1 / x\<rceil>))" by simp
next
  fix x :: rat
  assume a: "0 < x \<and> x < 1"
  let ?n = "\<lceil>1 / x\<rceil>"
  have "1 < 1 / x" using a by simp
  then have n2: "2 \<le> ?n" by (simp add: le_ceiling_iff)
  have "1 / x \<le> of_int ?n" by (rule le_of_int_ceiling)
  then have "1 / (x * 2) \<le> of_int ?n / 2" using a by (simp add: field_simps)
  also have "\<dots> \<le> of_int (?n - 1)" using n2 by simp
  finally have "\<lceil>1 / (x * 2)\<rceil> \<le> ?n - 1" by (simp only: ceiling_le_iff)
  with n2 have "nat \<lceil>1 / (x * 2)\<rceil> < nat ?n" by arith
  then show "(x * 2, x) \<in> measure (\<lambda>x. nat \<lceil>1 / x\<rceil>)" by simp
qed

declare expUp.simps [simp del] expDown.simps [simp del]

definition exponent :: "rat \<Rightarrow> int" where
  "exponent x = (if 1 \<le> x then expUp x else expDown x)"

text \<open>
  The double nearest to a rational: the significand \<open>x / 2 ^ (e - 52)\<close>, which lies
  between \<open>2 ^ 52\<close> and \<open>2 ^ 53\<close> in magnitude, is rounded to an integer of 53 bits.
  A double is a rational that this rounding leaves as it is.
\<close>

definition binary64 :: "rat \<Rightarrow> rat" where
  "binary64 x =
     (if x = 0 then 0
      else let u = 2 powi (exponent \<bar>x\<bar> - 52) in of_int (roundHalfEven (x / u)) * u)"

definition isDouble :: "rat \<Rightarrow> bool" where
  "isDouble x = (binary64 x = x)"

text \<open>The operators \<^verbatim>\<open>*\<close>, \<^verbatim>\<open>/\<close> and \<^verbatim>\<open>-\<close> of JavaScript on two numbers.\<close>

definition times64 :: "rat \<Rightarrow> rat \<Rightarrow> rat" where
  "times64 a b = binary64 (a * b)"

definition divide64 :: "rat \<Rightarrow> rat \<Rightarrow> rat" where
  "divide64 a b = binary64 (a / b)"

definition minus64 :: "rat \<Rightarrow> rat \<Rightarrow> rat" where
  "minus64 a b = binary64 (a - b)"

section \<open>The helpers of helpers.ts\<close>

text \<open>
  \<^verbatim>\<open>Math.round\<close>: the nearest integer, a tie going up (towards \<open>+\<infinity>\<close>); the result is a
  double whenever the argument is one.
\<close>

definition Math_round :: "number \<Rightarrow> number" where
  "Math_round x = of_int \<lfloor>x + 1 / 2\<rfloor>"

text \<open>\<^verbatim>\<open>calculateDiscount\<close> (helpers.ts 53-62).\<close>

fun calculateDiscount :: "DiscountType \<Rightarrow> number \<Rightarrow> number \<Rightarrow> number" where
  "calculateDiscount percentage dValue cartTotal =
     Math_round (times64 cartTotal (divide64 dValue 100))"
| "calculateDiscount fixed dValue cartTotal = min dValue cartTotal"

text \<open>
  \<^verbatim>\<open>validateCouponEligibility\<close> (helpers.ts 68-97): \<open>None\<close> is the \<^verbatim>\<open>null\<close> of an eligible
  coupon, \<open>Some (m, c)\<close> the error envelope with message \<open>m\<close> and code \<open>c\<close>.
\<close>

definition validateCouponEligibility ::
  "CouponDocument \<Rightarrow> number \<Rightarrow> instant \<Rightarrow> (message \<times> ErrorCode) option" where
  "validateCouponEligibility coupon cartTotal now =
     (if \<not> isActive coupon then Some (CuponNoActivo, COUPON_INACTIVE)
      else if now < validFrom coupon then Some (CuponAunNoValido, COUPON_NOT_YET_VALID)
      else if now > validUntil coupon then Some (CuponExpirado, COUPON_EXPIRED)
      else if (case maxUses coupon of None \<Rightarrow> False | Some m \<Rightarrow> usedCount coupon \<ge> m)
        then Some (CuponLimiteDeUsos, COUPON_MAX_USES)
      else case minPurchase coupon of
          None \<Rightarrow> None
        | Some p \<Rightarrow> if cartTotal < p then Some (MontoMinimo p, MIN_PURCHASE_NOT_MET) else None)"

text \<open>
  The rest object \<^verbatim>\<open>updates\<close> of an update request (\<^verbatim>\<open>UpdateCouponRequest\<close> without its two
  identifiers). \<open>None\<close> is a key that is absent (or \<^verbatim>\<open>undefined\<close>); for the two nullable
  keys \<open>Some None\<close> is an explicit \<^verbatim>\<open>null\<close> and \<open>Some (Some x)\<close> a number.
\<close>

record UpdateFields =
  upd_code :: "string option"
  upd_discountType :: "DiscountType option"
  upd_discountValue :: "number option"
  upd_minPurchase :: "number option option"
  upd_maxUses :: "int option option"
  upd_validFrom :: "instant option"
  upd_validUntil :: "instant option"
  upd_isActive :: "bool option"

text \<open>The operator \<^verbatim>\<open>a ?? b\<close>.\<close>

fun nullish :: "'a option \<Rightarrow> 'a \<Rightarrow> 'a" where
  "nullish None b = b"
| "nullish (Some a) b = a"


text \<open>
  A JavaScript object that holds coupon fields is the list of its entries, one
  \<open>FieldUpdate\<close> per key with the value it carries; \<open>SetMinPurchase None\<close> is the entry
  \<^verbatim>\<open>minPurchase: null\<close>. In the argument of \<^verbatim>\<open>buildCleanUpdates\<close> an entry whose value is
  \<^verbatim>\<open>undefined\<close> is \<open>None\<close>.
\<close>

datatype FieldUpdate =
    SetCode string
  | SetDiscountType DiscountType
  | SetDiscountValue number
  | SetMinPurchase "number option"
  | SetMaxUses "int option"
  | SetValidFrom instant
  | SetValidUntil instant
  | SetIsActive bool
  | SetUsedCount int
  | SetUpdatedAt instant

fun keyOf :: "FieldUpdate \<Rightarrow> string" where
  "keyOf (SetCode x) = ''code''"
| "keyOf (SetDiscountType x) = ''discountType''"
| "keyOf (SetDiscountValue x) = ''discountValue''"
| "keyOf (SetMinPurchase x) = ''minPurchase''"
| "keyOf (SetMaxUses x) = ''maxUses''"
| "keyOf (SetValidFrom x) = ''validFrom''"
| "keyOf (SetValidUntil x) = ''validUntil''"
| "keyOf (SetIsActive x) = ''isActive''"
| "keyOf (SetUsedCount x) = ''usedCount''"
| "keyOf (SetUpdatedAt x) = ''updatedAt''"

text \<open>
  The assignment \<^verbatim>\<open>obj[key] = value\<close>: an existing key keeps its place, a new key goes last.
\<close>

definition assign :: "FieldUpdate \<Rightarrow> FieldUpdate list \<Rightarrow> FieldUpdate list" where
  "assign f obj =
     (if keyOf f \<in> set (map keyOf obj)
      then map (\<lambda>g. if keyOf g = keyOf f then f else g) obj
      else obj @ [f])"

text \<open>
  \<^verbatim>\<open>buildCleanUpdates\<close> (helpers.ts 126-135): the loop copies every entry whose value is not
  \<^verbatim>\<open>undefined\<close>, then \<^verbatim>\<open>updatedAt\<close> is assigned.
\<close>

fun copyDefined :: "FieldUpdate option list \<Rightarrow> FieldUpdate list \<Rightarrow> FieldUpdate list" where
  "copyDefined [] clean = clean"
| "copyDefined (None # entries) clean = copyDefined entries clean"
| "copyDefined (Some f # entries) clean = copyDefined entries (assign f clean)"

definition buildCleanUpdates :: "FieldUpdate option list \<Rightarrow> instant \<Rightarrow> FieldUpdate list" where
  "buildCleanUpdates updates now = assign (SetUpdatedAt now) (copyDefined updates [])"

text \<open>
  \<^verbatim>\<open>toCouponDocument\<close> (helpers.ts 39-51), on the data of an existing document; \<open>None\<close> is
  the thrown \<^verbatim>\<open>Error\<close>. Of the required fields only the three bookkeeping ones can be
  \<^verbatim>\<open>undefined\<close> in the model.
\<close>

definition COUPON_REQUIRED_FIELDS :: "string list" where
  "COUPON_REQUIRED_FIELDS =
     [''siteId'', ''userId'', ''code'', ''discountType'', ''discountValue'',
      ''usedCount'', ''validFrom'', ''validUntil'', ''isActive'', ''createdAt'', ''updatedAt'']"

definition fieldUndefined :: "CouponDocument \<Rightarrow> string \<Rightarrow> bool" where
  "fieldUndefined doc f =
     (if f = ''userId'' then userId doc = None
      else if f = ''createdAt'' then createdAt doc = None
      else if f = ''updatedAt'' then updatedAt doc = None
      else False)"

definition toCouponDocument :: "CouponDocument \<Rightarrow> CouponDocument option" where
  "toCouponDocument doc =
     (let missing = filter (fieldUndefined doc) COUPON_REQUIRED_FIELDS
      in if length missing > 0 then None else Some doc)"

text \<open>
  \<^verbatim>\<open>withErrorHandling\<close> (helpers.ts 141-153). A handler body returns the store it leaves
  and its response, or \<open>None\<close> when it threw; the wrapper turns a throw into
  \<^verbatim>\<open>INTERNAL_ERROR\<close>.
\<close>

definition withErrorHandling ::
  "('req \<Rightarrow> 'a FunctionResponse option \<times> 'st) \<Rightarrow> 'req \<Rightarrow> 'a FunctionResponse \<times> 'st" where
  "withErrorHandling fn request =
     (case fn request of
        (Some response, st) \<Rightarrow> (response, st)
      | (None, st) \<Rightarrow> (Failure ErrorInterno INTERNAL_ERROR, st))"

text \<open>
  \<^verbatim>\<open>String.prototype.toUpperCase\<close> on ASCII: \<^verbatim>\<open>a\<close>..\<^verbatim>\<open>z\<close> go to \<^verbatim>\<open>A\<close>..\<^verbatim>\<open>Z\<close>, every other byte
  stays (the Unicode case mapping of JavaScript is not modelled).
\<close>

definition toUpperChar :: "char \<Rightarrow> char" where
  "toUpperChar c =
     (let n = (of_char c :: nat) in if 97 \<le> n \<and> n \<le> 122 then char_of (n - 32) else c)"

definition toUpperCase :: "string \<Rightarrow> string" where
  "toUpperCase s = map toUpperChar s"

section \<open>The store\<close>

text \<open>
  The two Firestore collections. The sites collection is an association list from the
  id of a site document to its \<^verbatim>\<open>userId\<close> field (\<open>None\<close> when the document has none). The
  coupons collection is the list of its documents in the order in which a query returns
  them; a document reference addresses the first entry with that id (ids are unique in
  a collection).
\<close>

record store =
  sites :: "(string \<times> string option) list"
  coupons :: "CouponDocument list"

text \<open>\<^verbatim>\<open>getSiteUserId\<close> (helpers.ts 28-32).\<close>

definition getSiteUserId :: "store \<Rightarrow> string \<Rightarrow> string option" where
  "getSiteUserId s sid = (case map_of (sites s) sid of None \<Rightarrow> None | Some siteDoc \<Rightarrow> siteDoc)"

text \<open>
  The test \<^verbatim>\<open>if (!userId)\<close>: \<^verbatim>\<open>null\<close> and the empty string are falsy; \<open>truthy\<close> keeps the
  string that passes.
\<close>

fun truthy :: "string option \<Rightarrow> string option" where
  "truthy None = None"
| "truthy (Some u) = (if u = [] then None else Some u)"

text \<open>\<^verbatim>\<open>couponsCollection.doc(id).get()\<close>; \<open>None\<close> when the document does not exist.\<close>

definition doc_get :: "CouponDocument list \<Rightarrow> string \<Rightarrow> CouponDocument option" where
  "doc_get docs cid = find (\<lambda>d. id' d = cid) docs"

text \<open>
  \<^verbatim>\<open>.where("siteId", "==", sid).where("code", "==", c).limit(1).get()\<close> and
  \<^verbatim>\<open>.where("siteId", "==", sid).get()\<close>: the documents of the snapshot.
\<close>

definition queryBySiteAndCode :: "CouponDocument list \<Rightarrow> string \<Rightarrow> string \<Rightarrow> CouponDocument list" where
  "queryBySiteAndCode docs sid c = take 1 (filter (\<lambda>d. siteId d = sid \<and> code d = c) docs)"

definition queryBySite :: "CouponDocument list \<Rightarrow> string \<Rightarrow> CouponDocument list" where
  "queryBySite docs sid = filter (\<lambda>d. siteId d = sid) docs"

text \<open>
  \<^verbatim>\<open>couponsCollection.add(data)\<close> with the id the store assigns: Firestore creates the
  document, and the creation throws (\<open>None\<close>) when the id is taken.
\<close>

definition collection_add :: "CouponDocument \<Rightarrow> CouponDocument list \<Rightarrow> CouponDocument list option" where
  "collection_add doc docs =
     (if doc_get docs (id' doc) = None then Some (docs @ [doc]) else None)"

text \<open>
  \<^verbatim>\<open>ref.update(fs)\<close>: every entry of \<open>fs\<close> overwrites its field of the document. Firestore
  rejects the update of a document that does not exist; the handlers update only a
  document they have just read, so \<open>doc_update\<close> leaves a collection without the
  document as it is.
\<close>

fun applyField :: "FieldUpdate \<Rightarrow> CouponDocument \<Rightarrow> CouponDocument" where
  "applyField (SetCode x) d = d\<lparr>code := x\<rparr>"
| "applyField (SetDiscountType x) d = d\<lparr>discountType := x\<rparr>"
| "applyField (SetDiscountValue x) d = d\<lparr>discountValue := x\<rparr>"
| "applyField (SetMinPurchase x) d = d\<lparr>minPurchase := x\<rparr>"
| "applyField (SetMaxUses x) d = d\<lparr>maxUses := x\<rparr>"
| "applyField (SetValidFrom x) d = d\<lparr>validFrom := x\<rparr>"
| "applyField (SetValidUntil x) d = d\<lparr>validUntil := x\<rparr>"
| "applyField (SetIsActive x) d = d\<lparr>isActive := x\<rparr>"
| "applyField (SetUsedCount x) d = d\<lparr>usedCount := x\<rparr>"
| "applyField (SetUpdatedAt x) d = d\<lparr>updatedAt := Some x\<rparr>"

fun doc_update :: "string \<Rightarrow> FieldUpdate list \<Rightarrow> CouponDocument list \<Rightarrow> CouponDocument list" where
  "doc_update cid fs [] = []"
| "doc_update cid fs (d # ds) =
     (if id' d = cid then fold applyField fs d # ds else d # doc_update cid fs ds)"

text \<open>\<^verbatim>\<open>ref.delete()\<close>.\<close>

fun doc_delete :: "string \<Rightarrow> CouponDocument list \<Rightarrow> CouponDocument list" where
  "doc_delete cid [] = []"
| "doc_delete cid (d # ds) = (if id' d = cid then ds else d # doc_delete cid ds)"

text \<open>
  \<^verbatim>\<open>db.runTransaction(body)\<close> with no concurrent writer: the body runs on the store, and
  nothing it wrote is kept when it throws.
\<close>

definition runTransaction :: "(store \<Rightarrow> 'a option \<times> store) \<Rightarrow> store \<Rightarrow> 'a option \<times> store" where
  "runTransaction body s = (case body s of (Some r, s') \<Rightarrow> (Some r, s') | (None, s') \<Rightarrow> (None, s))"

section \<open>Requests and schemas\<close>

text \<open>
  A request is the JSON object the caller sends, with the types of \<^verbatim>\<open>types/coupon.ts\<close>; a
  schema is the success of \<^verbatim>\<open>safeParse\<close> on it. Requests with a key of the wrong
  JavaScript type, a date string that does not parse or a fractional \<^verbatim>\<open>maxUses\<close> fail the
  schema too and are outside the request types.
\<close>

record CreateCouponRequest =
  c_siteId :: string
  c_code :: string
  c_discountType :: DiscountType
  c_discountValue :: number
  c_minPurchase :: "number option"
  c_maxUses :: "int option"
  c_validFrom :: instant
  c_validUntil :: instant

record GetCouponsRequest =
  g_siteId :: string

record UpdateCouponRequest =
  u_siteId :: string
  u_couponId :: string
  u_updates :: UpdateFields

record DeleteCouponRequest =
  d_siteId :: string
  d_couponId :: string

record ValidateCouponRequest =
  v_siteId :: string
  v_code :: string
  v_cartTotal :: number

record ApplyCouponRequest =
  a_siteId :: string
  a_couponId :: string
  a_orderId :: string
  a_cartTotal :: number

record ValidateCouponResult =
  vr_valid :: bool
  vr_couponId :: string
  vr_code :: string
  vr_discountType :: DiscountType
  vr_discountValue :: number
  vr_discountAmount :: number
  vr_finalTotal :: number

record ApplyCouponResult =
  ar_couponId :: string
  ar_orderId :: string
  ar_discountType :: DiscountType
  ar_discountValue :: number
  ar_discountAmount :: number
  ar_finalTotal :: number
  ar_usedCount :: int

text \<open>
  \<^verbatim>\<open>z.number().positive().optional()\<close>, \<^verbatim>\<open>z.number().int().positive().optional()\<close> and their
  nullable variants.
\<close>

fun optionalPositive :: "number option \<Rightarrow> bool" where
  "optionalPositive None = True"
| "optionalPositive (Some x) = (x > 0)"

fun optionalPositiveInt :: "int option \<Rightarrow> bool" where
  "optionalPositiveInt None = True"
| "optionalPositiveInt (Some x) = (x > 0)"

fun nullablePositive :: "number option option \<Rightarrow> bool" where
  "nullablePositive None = True"
| "nullablePositive (Some x) = optionalPositive x"

fun nullablePositiveInt :: "int option option \<Rightarrow> bool" where
  "nullablePositiveInt None = True"
| "nullablePositiveInt (Some x) = optionalPositiveInt x"

fun optionalNonEmpty :: "string option \<Rightarrow> bool" where
  "optionalNonEmpty None = True"
| "optionalNonEmpty (Some x) = (x \<noteq> [])"

text \<open>\<^verbatim>\<open>createCouponSchema\<close>: the base object and its two refinements.\<close>

definition createCouponSchema :: "CreateCouponRequest \<Rightarrow> bool" where
  "createCouponSchema r =
     (c_siteId r \<noteq> [] \<and> c_code r \<noteq> [] \<and> c_discountValue r > 0
      \<and> optionalPositive (c_minPurchase r) \<and> optionalPositiveInt (c_maxUses r)
      \<and> (if c_discountType r = percentage then c_discountValue r \<le> 100 else True)
      \<and> c_validFrom r < c_validUntil r)"

definition getCouponsSchema :: "GetCouponsRequest \<Rightarrow> bool" where
  "getCouponsSchema r = (g_siteId r \<noteq> [])"

text \<open>
  \<^verbatim>\<open>updateCouponSchema\<close>: each refinement compares two keys only when both are in the
  request.
\<close>

definition updateCouponSchema :: "UpdateCouponRequest \<Rightarrow> bool" where
  "updateCouponSchema r =
     (let data = u_updates r in
      u_siteId r \<noteq> [] \<and> u_couponId r \<noteq> []
      \<and> optionalNonEmpty (upd_code data)
      \<and> optionalPositive (upd_discountValue data)
      \<and> nullablePositive (upd_minPurchase data) \<and> nullablePositiveInt (upd_maxUses data)
      \<and> (case (upd_discountType data, upd_discountValue data) of
            (Some percentage, Some v) \<Rightarrow> v \<le> 100
          | _ \<Rightarrow> True)
      \<and> (case (upd_validFrom data, upd_validUntil data) of
            (Some vf, Some vu) \<Rightarrow> vf < vu
          | _ \<Rightarrow> True))"

definition deleteCouponSchema :: "DeleteCouponRequest \<Rightarrow> bool" where
  "deleteCouponSchema r = (d_siteId r \<noteq> [] \<and> d_couponId r \<noteq> [])"

definition validateCouponSchema :: "ValidateCouponRequest \<Rightarrow> bool" where
  "validateCouponSchema r = (v_siteId r \<noteq> [] \<and> v_code r \<noteq> [] \<and> v_cartTotal r \<ge> 0)"

definition applyCouponSchema :: "ApplyCouponRequest \<Rightarrow> bool" where
  "applyCouponSchema r =
     (a_siteId r \<noteq> [] \<and> a_couponId r \<noteq> [] \<and> a_orderId r \<noteq> [] \<and> a_cartTotal r \<ge> 0)"

text \<open>
  \<^verbatim>\<open>canCreateCoupon(userId, siteId)\<close> of \<^verbatim>\<open>lib/limits.ts\<close> is not part of the sources: the
  handlers take it as a parameter that reads the store and returns its verdict.
\<close>

record LimitCheck =
  allowed :: bool
  current :: number
  limit :: number

type_synonym limits = "store \<Rightarrow> string \<Rightarrow> string \<Rightarrow> LimitCheck"

section \<open>The handlers of handlers.ts (the version built on helpers.ts)\<close>

text \<open>
  Each handler takes the clock reading \<open>now\<close> and the store \<open>s\<close>, and returns its response
  with the store it leaves. \<^verbatim>\<open>createCouponHandler\<close> (handlers.ts 539-604) also takes the
  plan-limit collaborator and the id \<open>autoId\<close> that the store assigns to the new document.
\<close>

definition createCouponHandler ::
  "limits \<Rightarrow> instant \<Rightarrow> string \<Rightarrow> store \<Rightarrow> CreateCouponRequest
    \<Rightarrow> CouponDocument FunctionResponse \<times> store" where
  "createCouponHandler canCreateCoupon now autoId s =
     withErrorHandling (\<lambda>request.
       if \<not> createCouponSchema request then (Some (Failure SchemaIssues INVALID_INPUT), s)
       else case truthy (getSiteUserId s (c_siteId request)) of
         None \<Rightarrow> (Some (Failure SitioNoEncontrado SITE_NOT_FOUND), s)
       | Some uid \<Rightarrow>
           let limitCheck = canCreateCoupon s uid (c_siteId request) in
           if \<not> allowed limitCheck
           then (Some (Failure (LimiteAlcanzado (current limitCheck) (limit limitCheck))
                         COUPON_LIMIT_REACHED), s)
           else
             let normalizedCode = toUpperCase (c_code request);
                 existing = queryBySiteAndCode (coupons s) (c_siteId request) normalizedCode
             in if existing \<noteq> []
                then (Some (Failure (YaExisteCodigo normalizedCode) DUPLICATE_CODE), s)
                else
                  let couponData =
                        \<lparr> code = normalizedCode,
                          discountType = c_discountType request,
                          discountValue = c_discountValue request,
                          minPurchase = c_minPurchase request,
                          maxUses = c_maxUses request,
                          usedCount = 0,
                          validFrom = c_validFrom request,
                          validUntil = c_validUntil request,
                          isActive = True,
                          id' = autoId,
                          siteId = c_siteId request,
                          userId = Some uid,
                          createdAt = Some now,
                          updatedAt = Some now \<rparr>
                  in (case collection_add couponData (coupons s) of
                        None \<Rightarrow> (None, s)
                      | Some docs \<Rightarrow> (Some (Data couponData), s\<lparr>coupons := docs\<rparr>)))"

text \<open>\<^verbatim>\<open>getCouponsHandler\<close> (handlers.ts 612-634).\<close>

definition getCouponsHandler ::
  "store \<Rightarrow> GetCouponsRequest \<Rightarrow> CouponDocument list FunctionResponse \<times> store" where
  "getCouponsHandler s =
     withErrorHandling (\<lambda>request.
       if \<not> getCouponsSchema request then (Some (Failure SchemaIssues INVALID_INPUT), s)
       else case truthy (getSiteUserId s (g_siteId request)) of
         None \<Rightarrow> (Some (Failure SitioNoEncontrado SITE_NOT_FOUND), s)
       | Some uid \<Rightarrow>
           let snapshot = queryBySite (coupons s) (g_siteId request) in
           (case those (map toCouponDocument snapshot) of
              None \<Rightarrow> (None, s)
            | Some docs \<Rightarrow> (Some (Data docs), s)))"

text \<open>\<^verbatim>\<open>Object.entries(updates)\<close>, in the key order of the schema.\<close>

definition Object_entries :: "UpdateFields \<Rightarrow> FieldUpdate option list" where
  "Object_entries u =
     [map_option SetCode (upd_code u),
      map_option SetDiscountType (upd_discountType u),
      map_option SetDiscountValue (upd_discountValue u),
      map_option SetMinPurchase (upd_minPurchase u),
      map_option SetMaxUses (upd_maxUses u),
      map_option SetValidFrom (upd_validFrom u),
      map_option SetValidUntil (upd_validUntil u),
      map_option SetIsActive (upd_isActive u)]"

text \<open>
  The block \<^verbatim>\<open>if (updates.code) { ... }\<close> of the update handler (handlers.ts 673-692): the
  duplicate-code failure, or \<open>updates\<close> with its code in upper case.
\<close>

definition checkNewCode ::
  "store \<Rightarrow> string \<Rightarrow> CouponDocument \<Rightarrow> UpdateFields \<Rightarrow> (message \<times> ErrorCode) + UpdateFields" where
  "checkNewCode s sid currentData updates =
     (case upd_code updates of
        None \<Rightarrow> Inr updates
      | Some c \<Rightarrow>
          if c = [] then Inr updates
          else
            let normalizedCode = toUpperCase c in
            if normalizedCode \<noteq> code currentData
               \<and> queryBySiteAndCode (coupons s) sid normalizedCode \<noteq> []
            then Inl (YaExisteCodigo normalizedCode, DUPLICATE_CODE)
            else Inr (updates\<lparr>upd_code := Some (toUpperCase c)\<rparr>))"

text \<open>\<^verbatim>\<open>updateCouponHandler\<close> (handlers.ts 643-732).\<close>

definition updateCouponHandler ::
  "instant \<Rightarrow> store \<Rightarrow> UpdateCouponRequest \<Rightarrow> CouponDocument FunctionResponse \<times> store" where
  "updateCouponHandler now s =
     withErrorHandling (\<lambda>request.
       if \<not> updateCouponSchema request then (Some (Failure SchemaIssues INVALID_INPUT), s)
       else case truthy (getSiteUserId s (u_siteId request)) of
         None \<Rightarrow> (Some (Failure SitioNoEncontrado SITE_NOT_FOUND), s)
       | Some uid \<Rightarrow>
          (case doc_get (coupons s) (u_couponId request) of
             None \<Rightarrow> (Some (Failure CuponNoEncontrado COUPON_NOT_FOUND), s)
           | Some couponDoc \<Rightarrow>
              (case toCouponDocument couponDoc of
                 None \<Rightarrow> (None, s)
               | Some currentData \<Rightarrow>
                  if siteId currentData \<noteq> u_siteId request
                  then (Some (Failure CuponNoPertenece FORBIDDEN), s)
                  else
                   (case checkNewCode s (u_siteId request) currentData (u_updates request) of
                      Inl (m, c) \<Rightarrow> (Some (Failure m c), s)
                    | Inr updates \<Rightarrow>
                       let finalDiscountType =
                             nullish (upd_discountType updates) (discountType currentData);
                           finalDiscountValue =
                             nullish (upd_discountValue updates) (discountValue currentData)
                       in if finalDiscountType = percentage \<and> finalDiscountValue > 100
                          then (Some (Failure PorcentajeSupera100 INVALID_INPUT), s)
                          else
                            let finalValidFrom =
                                  nullish (upd_validFrom updates) (validFrom currentData);
                                finalValidUntil =
                                  nullish (upd_validUntil updates) (validUntil currentData)
                            in if finalValidFrom \<ge> finalValidUntil
                               then (Some (Failure ValidFromDebeSerAnterior INVALID_INPUT), s)
                               else
                                 let cleanUpdates =
                                       assign (SetUpdatedAt now)
                                         (copyDefined (Object_entries updates) []);
                                     s' = s\<lparr>coupons :=
                                            doc_update (u_couponId request) cleanUpdates (coupons s)\<rparr>
                                 in (case doc_get (coupons s') (u_couponId request) of
                                       None \<Rightarrow> (None, s')
                                     | Some updatedDoc \<Rightarrow>
                                        (case toCouponDocument updatedDoc of
                                           None \<Rightarrow> (None, s')
                                         | Some updatedData \<Rightarrow>
                                             (Some (Data updatedData), s')))))))"

text \<open>
  \<^verbatim>\<open>deleteCouponHandler\<close> (handlers.ts 740-773); it reads \<^verbatim>\<open>siteId\<close> from the raw data,
  without \<^verbatim>\<open>toCouponDocument\<close>.
\<close>

definition deleteCouponHandler ::
  "store \<Rightarrow> DeleteCouponRequest \<Rightarrow> string FunctionResponse \<times> store" where
  "deleteCouponHandler s =
     withErrorHandling (\<lambda>request.
       if \<not> deleteCouponSchema request then (Some (Failure SchemaIssues INVALID_INPUT), s)
       else case truthy (getSiteUserId s (d_siteId request)) of
         None \<Rightarrow> (Some (Failure SitioNoEncontrado SITE_NOT_FOUND), s)
       | Some uid \<Rightarrow>
          (case doc_get (coupons s) (d_couponId request) of
             None \<Rightarrow> (Some (Failure CuponNoEncontrado COUPON_NOT_FOUND), s)
           | Some couponData \<Rightarrow>
               if siteId couponData \<noteq> d_siteId request
               then (Some (Failure CuponNoPertenece FORBIDDEN), s)
               else (Some (Data (d_couponId request)),
                     s\<lparr>coupons := doc_delete (d_couponId request) (coupons s)\<rparr>)))"

text \<open>\<^verbatim>\<open>validateCouponHandler\<close> (handlers.ts 782-834).\<close>

definition validateCouponHandler ::
  "instant \<Rightarrow> store \<Rightarrow> ValidateCouponRequest \<Rightarrow> ValidateCouponResult FunctionResponse \<times> store" where
  "validateCouponHandler now s =
     withErrorHandling (\<lambda>request.
       if \<not> validateCouponSchema request then (Some (Failure SchemaIssues INVALID_INPUT), s)
       else case truthy (getSiteUserId s (v_siteId request)) of
         None \<Rightarrow> (Some (Failure SitioNoEncontrado SITE_NOT_FOUND), s)
       | Some siteUserId \<Rightarrow>
          (let normalizedCode = toUpperCase (v_code request);
               snapshot = queryBySiteAndCode (coupons s) (v_siteId request) normalizedCode
           in case snapshot of
                [] \<Rightarrow> (Some (Failure CuponNoEncontrado COUPON_NOT_FOUND), s)
              | couponDoc # rest \<Rightarrow>
                 (case toCouponDocument couponDoc of
                    None \<Rightarrow> (None, s)
                  | Some coupon \<Rightarrow>
                     (case validateCouponEligibility coupon (v_cartTotal request) now of
                        Some (m, c) \<Rightarrow> (Some (Failure m c), s)
                      | None \<Rightarrow>
                         let discountAmount =
                               calculateDiscount (discountType coupon) (discountValue coupon)
                                 (v_cartTotal request);
                             finalTotal = minus64 (v_cartTotal request) discountAmount
                         in (Some (Data \<lparr> vr_valid = True,
                                          vr_couponId = id' coupon,
                                          vr_code = code coupon,
                                          vr_discountType = discountType coupon,
                                          vr_discountValue = discountValue coupon,
                                          vr_discountAmount = discountAmount,
                                          vr_finalTotal = max finalTotal 0 \<rparr>), s)))))"

text \<open>
  \<^verbatim>\<open>applyCouponHandler\<close> (handlers.ts 843-908): the read, the checks and the increment run
  in one transaction.
\<close>

definition applyCouponHandler ::
  "instant \<Rightarrow> store \<Rightarrow> ApplyCouponRequest \<Rightarrow> ApplyCouponResult FunctionResponse \<times> store" where
  "applyCouponHandler now s =
     withErrorHandling (\<lambda>request.
       if \<not> applyCouponSchema request then (Some (Failure SchemaIssues INVALID_INPUT), s)
       else case truthy (getSiteUserId s (a_siteId request)) of
         None \<Rightarrow> (Some (Failure SitioNoEncontrado SITE_NOT_FOUND), s)
       | Some siteUserId \<Rightarrow>
           runTransaction (\<lambda>t.
             case doc_get (coupons t) (a_couponId request) of
               None \<Rightarrow> (Some (Failure CuponNoEncontrado COUPON_NOT_FOUND), t)
             | Some couponDoc \<Rightarrow>
                (case toCouponDocument couponDoc of
                   None \<Rightarrow> (None, t)
                 | Some coupon \<Rightarrow>
                    if siteId coupon \<noteq> a_siteId request
                    then (Some (Failure CuponNoPertenece FORBIDDEN), t)
                    else
                     (case validateCouponEligibility coupon (a_cartTotal request) now of
                        Some (m, c) \<Rightarrow> (Some (Failure m c), t)
                      | None \<Rightarrow>
                         let discountAmount =
                               calculateDiscount (discountType coupon) (discountValue coupon)
                                 (a_cartTotal request);
                             finalTotal = max (minus64 (a_cartTotal request) discountAmount) 0;
                             newUsedCount = usedCount coupon + 1
                         in (Some (Data \<lparr> ar_couponId = id' coupon,
                                          ar_orderId = a_orderId request,
                                          ar_discountType = discountType coupon,
                                          ar_discountValue = discountValue coupon,
                                          ar_discountAmount = discountAmount,
                                          ar_finalTotal = finalTotal,
                                          ar_usedCount = newUsedCount \<rparr>),
                             t\<lparr>coupons :=
                                 doc_update (a_couponId request)
                                   [SetUsedCount newUsedCount, SetUpdatedAt now] (coupons t)\<rparr>))))
             s)"

section \<open>The earlier handlers of handlers.ts (inline logic)\<close>











section \<open>Reference definitions, runs and example data\<close>

text \<open>
  The eligibility decision in the words of the specification: the five conditions in
  order, each \<open>must hold, else\<close> its reason; \<open>None\<close> is \<open>pass\<close>.
\<close>

definition checkEligibility :: "CouponDocument \<Rightarrow> number \<Rightarrow> instant \<Rightarrow> ErrorCode option" where
  "checkEligibility coupon cartTotal now =
     (if \<not> isActive coupon then Some COUPON_INACTIVE
      else if \<not> now \<ge> validFrom coupon then Some COUPON_NOT_YET_VALID
      else if \<not> now \<le> validUntil coupon then Some COUPON_EXPIRED
      else if (case maxUses coupon of None \<Rightarrow> False | Some m \<Rightarrow> \<not> usedCount coupon < m)
        then Some COUPON_MAX_USES
      else if (case minPurchase coupon of None \<Rightarrow> False | Some p \<Rightarrow> \<not> cartTotal \<ge> p)
        then Some MIN_PURCHASE_NOT_MET
      else None)"

text \<open>The entries of an object whose value is defined, in their order.\<close>

fun definedEntries :: "'a option list \<Rightarrow> 'a list" where
  "definedEntries [] = []"
| "definedEntries (None # es) = definedEntries es"
| "definedEntries (Some f # es) = f # definedEntries es"

text \<open>
  A call of one of the six operations, with the clock reading (and, for a creation, the
  id the store assigns) of that call; \<open>perform\<close> is the store the call leaves and \<open>run\<close>
  a sequence of calls, one after the other.
\<close>

datatype call =
    CreateCoupon instant string CreateCouponRequest
  | GetCoupons GetCouponsRequest
  | UpdateCoupon instant UpdateCouponRequest
  | DeleteCoupon DeleteCouponRequest
  | ValidateCoupon instant ValidateCouponRequest
  | ApplyCoupon instant ApplyCouponRequest

fun perform :: "limits \<Rightarrow> store \<Rightarrow> call \<Rightarrow> store" where
  "perform plan s (CreateCoupon now autoId r) = snd (createCouponHandler plan now autoId s r)"
| "perform plan s (GetCoupons r) = snd (getCouponsHandler s r)"
| "perform plan s (UpdateCoupon now r) = snd (updateCouponHandler now s r)"
| "perform plan s (DeleteCoupon r) = snd (deleteCouponHandler s r)"
| "perform plan s (ValidateCoupon now r) = snd (validateCouponHandler now s r)"
| "perform plan s (ApplyCoupon now r) = snd (applyCouponHandler now s r)"

fun run :: "limits \<Rightarrow> store \<Rightarrow> call list \<Rightarrow> store" where
  "run plan s [] = s"
| "run plan s (c # cs) = run plan (perform plan s c) cs"






text \<open>A stored document that has every field of \<^verbatim>\<open>COUPON_REQUIRED_FIELDS\<close>.\<close>

definition hasRequiredFields :: "CouponDocument \<Rightarrow> bool" where
  "hasRequiredFields d = (userId d \<noteq> None \<and> createdAt d \<noteq> None \<and> updatedAt d \<noteq> None)"






text \<open>
  Example data: two sites, five coupons of the first site, valid from instant 0 to
  instant 1000.
\<close>

definition exampleCoupon :: CouponDocument where
  "exampleCoupon =
     \<lparr> code = ''VERANO10'', discountType = percentage, discountValue = 10,
       minPurchase = None, maxUses = None, usedCount = 0,
       validFrom = 0, validUntil = 1000, isActive = True,
       id' = ''coupon001'', siteId = ''site1'', userId = Some ''user1'',
       createdAt = Some 0, updatedAt = Some 0 \<rparr>"

definition fixed5000Coupon :: CouponDocument where
  "fixed5000Coupon =
     exampleCoupon\<lparr> id' := ''coupon002'', code := ''FIJO5000'',
                     discountType := fixed, discountValue := 5000 \<rparr>"

definition fixed50000Coupon :: CouponDocument where
  "fixed50000Coupon =
     exampleCoupon\<lparr> id' := ''coupon003'', code := ''FIJO50000'',
                     discountType := fixed, discountValue := 50000,
                     maxUses := Some 5, usedCount := 2 \<rparr>"

definition oneUseCoupon :: CouponDocument where
  "oneUseCoupon =
     exampleCoupon\<lparr> id' := ''coupon004'', code := ''UNUSO'',
                     discountType := fixed, discountValue := 1000, maxUses := Some 1 \<rparr>"

definition exhaustedCoupon :: CouponDocument where
  "exhaustedCoupon =
     exampleCoupon\<lparr> id' := ''coupon005'', code := ''AGOTADO'',
                     maxUses := Some 1, usedCount := 1, isActive := False \<rparr>"

definition exampleStore :: store where
  "exampleStore =
     \<lparr> sites = [(''site1'', Some ''user1''), (''site2'', Some ''user2'')],
       coupons =
         [exampleCoupon, fixed5000Coupon, fixed50000Coupon, oneUseCoupon, exhaustedCoupon] \<rparr>"

text \<open>
  Two plan-limit collaborators: one that always allows, and the free plan of the
  README (three coupons per site).
\<close>

definition unlimitedPlan :: limits where
  "unlimitedPlan s uid sid = \<lparr> allowed = True, current = 0, limit = 0 \<rparr>"



section \<open>Eligibility and discount\<close>

text \<open>
  C2. For every coupon snapshot, cart total and evaluation time, the error code of
  \<^verbatim>\<open>validateCouponEligibility\<close> is the outcome of the reference decision of the
  specification, evaluated in its order: inactive, not yet valid, expired, uses
  exhausted, minimum purchase not met, else eligible. Both bounds of the validity
  window are inclusive and a cart total equal to the minimum purchase passes: a coupon
  that is active, whose window begins and ends at the evaluation time and whose minimum
  purchase is the cart total, is eligible.
\<close>

theorem eligibility_matches_reference:
  "map_option snd (validateCouponEligibility coupon cartTotal now)
     = checkEligibility coupon cartTotal now
   \<and> validateCouponEligibility
        (coupon\<lparr>isActive := True, validFrom := now, validUntil := now, maxUses := None,
                minPurchase := Some cartTotal\<rparr>) cartTotal now = None"
  by (simp add: validateCouponEligibility_def checkEligibility_def not_le not_less
      split: option.split)

theorem eligibility_matches_reference_witness:
  "map_option snd
     (validateCouponEligibility (exampleCoupon\<lparr>minPurchase := Some 30000\<rparr>) 20000 500)
     = Some MIN_PURCHASE_NOT_MET
   \<and> checkEligibility (exampleCoupon\<lparr>minPurchase := Some 30000\<rparr>) 20000 500
     = Some MIN_PURCHASE_NOT_MET
   \<and> validateCouponEligibility (exampleCoupon\<lparr>minPurchase := Some 30000\<rparr>) 30000 1000
     = None"
proof -
  have "checkEligibility (exampleCoupon\<lparr>minPurchase := Some 30000\<rparr>) 20000 500
          = Some MIN_PURCHASE_NOT_MET"
    by code_simp
  moreover
  have "validateCouponEligibility (exampleCoupon\<lparr>minPurchase := Some 30000\<rparr>) 30000 1000
          = None"
    by code_simp
  ultimately show ?thesis
    using eligibility_matches_reference
      [of "exampleCoupon\<lparr>minPurchase := Some 30000\<rparr>" 20000 500]
    by simp
qed

section \<open>Rounding to a double\<close>

lemma expUp_bounds: "1 \<le> x \<Longrightarrow> 2 powi (expUp x) \<le> x \<and> x < 2 powi (expUp x + 1)"
proof (induction x rule: expUp.induct)
  case (1 x)
  show ?case
  proof (cases "2 \<le> x")
    case True
    then have "1 \<le> x / 2" by simp
    with 1 True have ih: "2 powi (expUp (x / 2)) \<le> x / 2" "x / 2 < 2 powi (expUp (x / 2) + 1)"
      by auto
    have e: "expUp x = expUp (x / 2) + 1" using True by (subst expUp.simps) simp
    show ?thesis using ih unfolding e by (simp add: power_int_add field_simps)
  next
    case False
    then have e: "expUp x = 0" by (subst expUp.simps) simp
    show ?thesis using False 1(2) unfolding e by simp
  qed
qed

lemma expDown_bounds:
  "0 < x \<Longrightarrow> x < 1 \<Longrightarrow> 2 powi (expDown x) \<le> x \<and> x < 2 powi (expDown x + 1)"
proof (induction x rule: expDown.induct)
  case (1 x)
  have e: "expDown x = expDown (x * 2) - 1" using 1(2,3) by (subst expDown.simps) simp
  show ?case
  proof (cases "x * 2 < 1")
    case True
    with 1 have ih: "2 powi (expDown (x * 2)) \<le> x * 2" "x * 2 < 2 powi (expDown (x * 2) + 1)"
      by auto
    show ?thesis using ih unfolding e by (simp add: power_int_add power_int_diff field_simps)
  next
    case False
    then have e2: "expDown (x * 2) = 0" by (subst expDown.simps) simp
    show ?thesis using False 1(3) unfolding e e2 by (simp add: power_int_minus)
  qed
qed

lemma exponent_bounds: "0 < x \<Longrightarrow> 2 powi (exponent x) \<le> x \<and> x < 2 powi (exponent x + 1)"
  unfolding exponent_def using expUp_bounds expDown_bounds
  by (cases "1 \<le> x") (simp_all add: not_le)

lemma exponent_mono: "0 < y \<Longrightarrow> y \<le> c \<Longrightarrow> exponent y \<le> exponent c"
proof -
  assume a: "0 < y" "y \<le> c"
  have "(2::rat) powi exponent y \<le> y" using exponent_bounds a by simp
  also have "\<dots> \<le> c" by (rule a)
  also have "\<dots> < 2 powi (exponent c + 1)" using exponent_bounds [of c] a by simp
  finally have lt: "(2::rat) powi exponent y < 2 powi (exponent c + 1)" .
  show ?thesis
  proof (rule ccontr)
    assume "\<not> exponent y \<le> exponent c"
    then have "exponent c + 1 \<le> exponent y" by simp
    then have "(2::rat) powi (exponent c + 1) \<le> 2 powi exponent y"
      by (rule power_int_increasing) simp
    with lt show False by simp
  qed
qed

lemma roundHalfEven_le: "a \<le> of_int k \<Longrightarrow> roundHalfEven a \<le> k"
proof -
  assume a: "a \<le> of_int k"
  then have f: "\<lfloor>a\<rfloor> \<le> k" by (simp add: floor_le_iff)
  show ?thesis
  proof (cases "\<lfloor>a\<rfloor> = k")
    case True
    then have "a - of_int \<lfloor>a\<rfloor> \<le> 0" using a by simp
    then show ?thesis using True by (simp add: roundHalfEven_def Let_def)
  next
    case False
    with f have "\<lfloor>a\<rfloor> + 1 \<le> k" by simp
    then show ?thesis using f by (simp add: roundHalfEven_def Let_def)
  qed
qed

lemma roundHalfEven_ge: "of_int k \<le> a \<Longrightarrow> k \<le> roundHalfEven a"
proof -
  assume "of_int k \<le> a"
  then have "k \<le> \<lfloor>a\<rfloor>" by (simp add: le_floor_iff)
  then show ?thesis by (simp add: roundHalfEven_def Let_def)
qed



lemma binary64_nonneg: "0 \<le> x \<Longrightarrow> 0 \<le> binary64 x"
  using roundHalfEven_ge [of 0] by (simp add: binary64_def Let_def)

lemma binary64_nonpos: "x \<le> 0 \<Longrightarrow> binary64 x \<le> 0"
proof -
  assume a: "x \<le> 0"
  have "roundHalfEven (x / 2 powi (exponent \<bar>x\<bar> - 52)) \<le> 0"
    using a by (intro roundHalfEven_le) (simp add: divide_nonpos_pos)
  then show ?thesis by (simp add: binary64_def Let_def mult_le_0_iff)
qed

text \<open>Rounding does not cross a double: what is at most a double \<open>c\<close> rounds to at most \<open>c\<close>.\<close>

lemma binary64_le: "0 \<le> c \<Longrightarrow> isDouble c \<Longrightarrow> y \<le> c \<Longrightarrow> binary64 y \<le> c"
proof (cases "y \<le> 0")
  case True
  assume "0 \<le> c"
  with binary64_nonpos [OF True] show ?thesis by simp
next
  case False
  assume a: "0 \<le> c" "isDouble c" "y \<le> c"
  from False have y0: "0 < y" by simp
  with a have c0: "0 < c" by simp
  define ey where "ey = exponent \<bar>y\<bar>"
  define ec where "ec = exponent \<bar>c\<bar>"
  define m where "m = roundHalfEven (c / 2 powi (ec - 52))"
  have le: "ey \<le> ec" using exponent_mono [of y c] y0 a by (simp add: ey_def ec_def)
  have c: "c = of_int m * 2 powi (ec - 52)"
    using a(2) c0 by (simp add: isDouble_def binary64_def Let_def m_def ec_def)
  have "ec - 52 = (ey - 52) + int (nat (ec - ey))" using le by simp
  then have "(2::rat) powi (ec - 52) = 2 powi ((ey - 52) + int (nat (ec - ey)))"
    by (rule arg_cong)
  also have "\<dots> = 2 powi (ey - 52) * 2 powi int (nat (ec - ey))"
    by (rule power_int_add) simp
  finally have "(2::rat) powi (ec - 52) = 2 powi (ey - 52) * 2 ^ nat (ec - ey)"
    by (simp only: power_int_of_nat)
  with c have c2: "c = of_int (m * 2 ^ nat (ec - ey)) * 2 powi (ey - 52)" by simp
  have u0: "(0::rat) < 2 powi (ey - 52)" by simp
  have q: "c / 2 powi (ey - 52) = of_int (m * 2 ^ nat (ec - ey))"
    by (subst c2) simp
  have "y / 2 powi (ey - 52) \<le> c / 2 powi (ey - 52)"
    using a(3) by (simp add: divide_right_mono)
  with q have "roundHalfEven (y / 2 powi (ey - 52)) \<le> m * 2 ^ nat (ec - ey)"
    by (intro roundHalfEven_le) simp
  then have "of_int (roundHalfEven (y / 2 powi (ey - 52))) * 2 powi (ey - 52)
      \<le> (of_int (m * 2 ^ nat (ec - ey)) :: rat) * 2 powi (ey - 52)"
    using u0 by (intro mult_right_mono) (simp_all only: of_int_le_iff less_imp_le)
  also have "\<dots> = c" by (rule c2 [symmetric])
  finally show ?thesis using y0 by (simp add: binary64_def Let_def ey_def)
qed


lemma Math_round_le_whole:
  assumes "x \<le> of_int n"
  shows "Math_round x \<le> of_int n"
proof -
  have "x + 1 / 2 < of_int (n + 1)" using assms by simp
  then have "\<lfloor>x + 1 / 2\<rfloor> < n + 1" by (simp only: floor_less_iff)
  then show ?thesis by (simp add: Math_round_def)
qed




section \<open>The discount\<close>




text \<open>
  C4, as stated: for every coupon with a positive value, at most 100 when the kind is
  percentage, and every non-negative cart total, the discount is at most the cart
  total and the floor at zero of the final total is never the active branch. This
  fails for a cart total with a fraction: 100 percent of a cart of 1/2 rounds to 1.
\<close>

theorem discount_above_cart_counterexample:
  "\<not> (\<forall>k v cartTotal. 0 < v \<and> (k = percentage \<longrightarrow> v \<le> 100) \<and> 0 \<le> cartTotal
          \<and> isDouble v \<and> isDouble cartTotal
        \<longrightarrow> calculateDiscount k v cartTotal \<le> cartTotal
            \<and> max (minus64 cartTotal (calculateDiscount k v cartTotal)) 0
                = minus64 cartTotal (calculateDiscount k v cartTotal))"
proof
  assume a: "\<forall>k v cartTotal. 0 < v \<and> (k = percentage \<longrightarrow> v \<le> 100) \<and> 0 \<le> cartTotal
          \<and> isDouble v \<and> isDouble cartTotal
        \<longrightarrow> calculateDiscount k v cartTotal \<le> cartTotal
            \<and> max (minus64 cartTotal (calculateDiscount k v cartTotal)) 0
                = minus64 cartTotal (calculateDiscount k v cartTotal)"
  have e: "calculateDiscount percentage 100 (1 / 2) = 1"
    by code_simp
  have "(0::rat) < 100 \<and> (percentage = percentage \<longrightarrow> (100::rat) \<le> 100) \<and> (0::rat) \<le> 1 / 2
          \<and> isDouble 100 \<and> isDouble (1 / 2)"
    by code_simp
  with a have "calculateDiscount percentage 100 (1 / 2) \<le> 1 / 2"
    by blast
  with e show False by simp
qed

text \<open>
  C4, amended. For every non-negative cart total, and every coupon whose value is at
  most 100 when its kind is percentage, the discount is at most the cart total, and the
  final total \<^verbatim>\<open>Math.max(cartTotal - discountAmount, 0)\<close> is the difference
  \<^verbatim>\<open>cartTotal - discountAmount\<close>, provided that the cart total is a whole number when the
  kind is percentage (for a fixed coupon every cart total will do). The cart total is a
  double, as every number of a request is.
\<close>

theorem discount_within_whole_cart:
  "(k = percentage \<longrightarrow> v \<le> 100 \<and> cartTotal = of_int n) \<and> 0 \<le> cartTotal
     \<and> isDouble cartTotal
   \<longrightarrow> calculateDiscount k v cartTotal \<le> cartTotal
       \<and> max (minus64 cartTotal (calculateDiscount k v cartTotal)) 0
           = minus64 cartTotal (calculateDiscount k v cartTotal)"
proof (intro impI, elim conjE)
  assume h: "k = percentage \<longrightarrow> v \<le> 100 \<and> cartTotal = of_int n" and nn: "0 \<le> cartTotal"
    and dbl: "isDouble cartTotal"
  have le: "calculateDiscount k v cartTotal \<le> cartTotal"
  proof (cases k)
    case percentage
    with h have v: "v \<le> 100" and c: "cartTotal = of_int n" by simp_all
    have one: "isDouble 1" by code_simp
    have "divide64 v 100 \<le> 1"
      unfolding divide64_def using v by (intro binary64_le one) simp_all
    then have "cartTotal * divide64 v 100 \<le> cartTotal * 1"
      using nn by (intro mult_left_mono)
    then have "times64 cartTotal (divide64 v 100) \<le> cartTotal"
      unfolding times64_def using nn dbl by (intro binary64_le) simp_all
    then have "times64 cartTotal (divide64 v 100) \<le> of_int n" using c by simp
    then have "Math_round (times64 cartTotal (divide64 v 100)) \<le> of_int n"
      by (rule Math_round_le_whole)
    then show ?thesis using percentage c by simp
  next
    case fixed
    then show ?thesis by simp
  qed
  then have "0 \<le> minus64 cartTotal (calculateDiscount k v cartTotal)"
    unfolding minus64_def by (intro binary64_nonneg) simp
  with le show "calculateDiscount k v cartTotal \<le> cartTotal
       \<and> max (minus64 cartTotal (calculateDiscount k v cartTotal)) 0
           = minus64 cartTotal (calculateDiscount k v cartTotal)"
    by simp
qed

theorem discount_within_whole_cart_witness:
  "(33::rat) \<le> 100 \<and> (10000::rat) = of_int 10000 \<and> (0::rat) \<le> 10000 \<and> isDouble 10000
   \<and> calculateDiscount percentage 33 10000 = 3300 \<and> (3300::rat) \<le> 10000
   \<and> max (minus64 10000 (calculateDiscount percentage 33 10000)) 0 = 6700"
proof -
  have e: "calculateDiscount percentage 33 10000 = 3300"
    by code_simp
  have m: "minus64 10000 3300 = 6700"
    by code_simp
  have d: "isDouble 10000"
    by code_simp
  then have "(percentage = percentage \<longrightarrow> (33::rat) \<le> 100 \<and> (10000::rat) = of_int 10000)
        \<and> (0::rat) \<le> 10000 \<and> isDouble 10000"
    by simp
  with discount_within_whole_cart [of percentage 33 10000 10000]
  have "calculateDiscount percentage 33 10000 \<le> 10000
       \<and> max (minus64 10000 (calculateDiscount percentage 33 10000)) 0
           = minus64 10000 (calculateDiscount percentage 33 10000)"
    by blast
  with e m d show ?thesis by simp
qed

section \<open>Reads and failed applications leave the store as it is\<close>

lemma toCouponDocument_eq:
  "toCouponDocument d = (if hasRequiredFields d then Some d else None)"
  by (simp add: toCouponDocument_def COUPON_REQUIRED_FIELDS_def fieldUndefined_def
      hasRequiredFields_def)

lemma validate_leaves_store: "snd (validateCouponHandler now s r) = s"
  by (simp add: validateCouponHandler_def withErrorHandling_def Let_def
      split: option.split list.split prod.split)

lemma run_validate_calls: "run plan s (map (\<lambda>(now, r). ValidateCoupon now r) calls) = s"
  by (induction calls) (simp_all add: validate_leaves_store split: prod.split)

text \<open>
  C9. \<^verbatim>\<open>validateCoupon\<close> never changes the store: after a call, whatever its input, its
  outcome and the store, the store is the one before; so is the store after any number
  of such calls, each with its own clock reading and request.
\<close>

theorem validate_never_mutates:
  "snd (validateCouponHandler now s r) = s
   \<and> run plan s (map (\<lambda>(now, r). ValidateCoupon now r) calls) = s"
  by (simp add: validate_leaves_store run_validate_calls)

theorem validate_never_mutates_witness:
  "fst (validateCouponHandler 500 exampleStore
          \<lparr>v_siteId = ''site1'', v_code = ''unuso'', v_cartTotal = 3000\<rparr>)
     = Data \<lparr>vr_valid = True, vr_couponId = ''coupon004'', vr_code = ''UNUSO'',
              vr_discountType = fixed, vr_discountValue = 1000,
              vr_discountAmount = 1000, vr_finalTotal = 2000\<rparr>
   \<and> snd (validateCouponHandler 500 exampleStore
          \<lparr>v_siteId = ''site1'', v_code = ''unuso'', v_cartTotal = 3000\<rparr>) = exampleStore
   \<and> run unlimitedPlan exampleStore
        [ValidateCoupon 500 \<lparr>v_siteId = ''site1'', v_code = ''unuso'', v_cartTotal = 3000\<rparr>,
         ValidateCoupon 501 \<lparr>v_siteId = ''site1'', v_code = ''agotado'', v_cartTotal = 10\<rparr>,
         ValidateCoupon 502 \<lparr>v_siteId = ''site9'', v_code = ''unuso'', v_cartTotal = 3000\<rparr>]
     = exampleStore"
proof -
  have "fst (validateCouponHandler 500 exampleStore
          \<lparr>v_siteId = ''site1'', v_code = ''unuso'', v_cartTotal = 3000\<rparr>)
     = Data \<lparr>vr_valid = True, vr_couponId = ''coupon004'', vr_code = ''UNUSO'',
              vr_discountType = fixed, vr_discountValue = 1000,
              vr_discountAmount = 1000, vr_finalTotal = 2000\<rparr>"
    by code_simp
  moreover
  note t = validate_never_mutates
      [of 500 exampleStore "\<lparr>v_siteId = ''site1'', v_code = ''unuso'', v_cartTotal = 3000\<rparr>"
        unlimitedPlan
        "[(500, \<lparr>v_siteId = ''site1'', v_code = ''unuso'', v_cartTotal = 3000\<rparr>),
          (501, \<lparr>v_siteId = ''site1'', v_code = ''agotado'', v_cartTotal = 10\<rparr>),
          (502, \<lparr>v_siteId = ''site9'', v_code = ''unuso'', v_cartTotal = 3000\<rparr>)]"]
  from t have "snd (validateCouponHandler 500 exampleStore
          \<lparr>v_siteId = ''site1'', v_code = ''unuso'', v_cartTotal = 3000\<rparr>) = exampleStore"
    by (rule conjunct1)
  moreover
  from t have "run unlimitedPlan exampleStore
        [ValidateCoupon 500 \<lparr>v_siteId = ''site1'', v_code = ''unuso'', v_cartTotal = 3000\<rparr>,
         ValidateCoupon 501 \<lparr>v_siteId = ''site1'', v_code = ''agotado'', v_cartTotal = 10\<rparr>,
         ValidateCoupon 502 \<lparr>v_siteId = ''site9'', v_code = ''unuso'', v_cartTotal = 3000\<rparr>]
     = exampleStore"
    by (simp only: list.map prod.case)
  ultimately show ?thesis
    by (intro conjI)
qed





section \<open>Partial updates\<close>

lemma assign_new: "keyOf f \<notin> set (map keyOf obj) \<Longrightarrow> assign f obj = obj @ [f]"
  by (simp add: assign_def)

lemma copyDefined_append:
  "distinct (map keyOf (clean @ definedEntries entries))
   \<Longrightarrow> copyDefined entries clean = clean @ definedEntries entries"
proof (induction entries arbitrary: clean)
  case Nil
  then show ?case by simp
next
  case (Cons e entries)
  show ?case
  proof (cases e)
    case None
    with Cons show ?thesis by simp
  next
    case (Some f)
    with Cons.prems have d: "distinct (map keyOf ((clean @ [f]) @ definedEntries entries))"
      and n: "keyOf f \<notin> set (map keyOf clean)"
      by simp_all
    from Cons.IH [OF d] n Some show ?thesis
      by (simp add: assign_new)
  qed
qed

lemma Object_entries_keys:
  "distinct (map keyOf (definedEntries (Object_entries u)))
   \<and> ''updatedAt'' \<notin> set (map keyOf (definedEntries (Object_entries u)))"
  by (cases "upd_code u"; cases "upd_discountType u"; cases "upd_discountValue u";
      cases "upd_minPurchase u"; cases "upd_maxUses u"; cases "upd_validFrom u";
      cases "upd_validUntil u"; cases "upd_isActive u"; simp add: Object_entries_def)

lemma clean_updates_eq:
  "assign (SetUpdatedAt now) (copyDefined (Object_entries u) [])
     = definedEntries (Object_entries u) @ [SetUpdatedAt now]"
proof -
  have "copyDefined (Object_entries u) [] = [] @ definedEntries (Object_entries u)"
    by (rule copyDefined_append) (simp add: Object_entries_keys)
  then show ?thesis
    using Object_entries_keys [of u] by (simp add: assign_new)
qed

lemma fold_clean_updates:
  "fold applyField (definedEntries (Object_entries u) @ [SetUpdatedAt now]) d
     = d\<lparr> code := nullish (upd_code u) (code d),
          discountType := nullish (upd_discountType u) (discountType d),
          discountValue := nullish (upd_discountValue u) (discountValue d),
          minPurchase := nullish (upd_minPurchase u) (minPurchase d),
          maxUses := nullish (upd_maxUses u) (maxUses d),
          validFrom := nullish (upd_validFrom u) (validFrom d),
          validUntil := nullish (upd_validUntil u) (validUntil d),
          isActive := nullish (upd_isActive u) (isActive d),
          updatedAt := Some now \<rparr>"
  by (cases "upd_code u"; cases "upd_discountType u"; cases "upd_discountValue u";
      cases "upd_minPurchase u"; cases "upd_maxUses u"; cases "upd_validFrom u";
      cases "upd_validUntil u"; cases "upd_isActive u"; simp add: Object_entries_def)

lemma checkNewCode_InrD:
  "checkNewCode s sid d u = Inr u'
   \<Longrightarrow> u' = u\<lparr>upd_code := map_option toUpperCase (upd_code u)\<rparr>"
  by (auto simp add: checkNewCode_def Let_def toUpperCase_def split: option.splits if_splits)

lemma id'_applyField [simp]: "id' (applyField f d) = id' d"
  by (cases f) simp_all

lemma id'_fold_applyField [simp]: "id' (fold applyField fs d) = id' d"
  by (induction fs arbitrary: d) simp_all


lemma doc_get_doc_update_same:
  "doc_get docs cid = Some d
   \<Longrightarrow> doc_get (doc_update cid fs docs) cid = Some (fold applyField fs d)"
  by (induction docs) (auto simp add: doc_get_def)

lemma doc_get_doc_update_other:
  "x \<noteq> cid \<Longrightarrow> doc_get (doc_update cid fs docs) x = doc_get docs x"
  by (induction docs) (auto simp add: doc_get_def)

lemma update_success:
  assumes "updateCouponHandler now s r = (Data d', s')"
  shows "\<exists>d u'. doc_get (coupons s) (u_couponId r) = Some d
      \<and> hasRequiredFields d \<and> siteId d = u_siteId r \<and> updateCouponSchema r
      \<and> truthy (getSiteUserId s (u_siteId r)) \<noteq> None
      \<and> checkNewCode s (u_siteId r) d (u_updates r) = Inr u'
      \<and> \<not> (nullish (upd_discountType u') (discountType d) = percentage
            \<and> nullish (upd_discountValue u') (discountValue d) > 100)
      \<and> nullish (upd_validFrom u') (validFrom d) < nullish (upd_validUntil u') (validUntil d)
      \<and> s' = s\<lparr>coupons := doc_update (u_couponId r)
                  (definedEntries (Object_entries u') @ [SetUpdatedAt now]) (coupons s)\<rparr>
      \<and> d' = fold applyField (definedEntries (Object_entries u') @ [SetUpdatedAt now]) d"
  using assms
  by (auto simp add: updateCouponHandler_def withErrorHandling_def Let_def clean_updates_eq
      toCouponDocument_eq doc_get_doc_update_same
      split: option.splits sum.splits if_splits prod.splits)

lemma update_frame:
  assumes "updateCouponHandler now s r = (Data d', s')"
    and "doc_get (coupons s) (u_couponId r) = Some d"
  shows "d' = d\<lparr> code := nullish (map_option toUpperCase (upd_code (u_updates r))) (code d),
          discountType := nullish (upd_discountType (u_updates r)) (discountType d),
          discountValue := nullish (upd_discountValue (u_updates r)) (discountValue d),
          minPurchase := nullish (upd_minPurchase (u_updates r)) (minPurchase d),
          maxUses := nullish (upd_maxUses (u_updates r)) (maxUses d),
          validFrom := nullish (upd_validFrom (u_updates r)) (validFrom d),
          validUntil := nullish (upd_validUntil (u_updates r)) (validUntil d),
          isActive := nullish (upd_isActive (u_updates r)) (isActive d),
          updatedAt := Some now \<rparr>"
    and "doc_get (coupons s') (u_couponId r) = Some d'"
    and "\<forall>x. x \<noteq> u_couponId r \<longrightarrow> doc_get (coupons s') x = doc_get (coupons s) x"
    and "sites s' = sites s"
proof -
  from update_success [OF assms(1)] assms(2) obtain u' where
    c: "checkNewCode s (u_siteId r) d (u_updates r) = Inr u'"
    and s': "s' = s\<lparr>coupons := doc_update (u_couponId r)
                  (definedEntries (Object_entries u') @ [SetUpdatedAt now]) (coupons s)\<rparr>"
    and d': "d' = fold applyField (definedEntries (Object_entries u') @ [SetUpdatedAt now]) d"
    by auto
  from checkNewCode_InrD [OF c]
  have u': "u' = (u_updates r)\<lparr>upd_code := map_option toUpperCase (upd_code (u_updates r))\<rparr>" .
  show "d' = d\<lparr> code := nullish (map_option toUpperCase (upd_code (u_updates r))) (code d),
          discountType := nullish (upd_discountType (u_updates r)) (discountType d),
          discountValue := nullish (upd_discountValue (u_updates r)) (discountValue d),
          minPurchase := nullish (upd_minPurchase (u_updates r)) (minPurchase d),
          maxUses := nullish (upd_maxUses (u_updates r)) (maxUses d),
          validFrom := nullish (upd_validFrom (u_updates r)) (validFrom d),
          validUntil := nullish (upd_validUntil (u_updates r)) (validUntil d),
          isActive := nullish (upd_isActive (u_updates r)) (isActive d),
          updatedAt := Some now \<rparr>"
    unfolding d' fold_clean_updates by (simp add: u')
  show "doc_get (coupons s') (u_couponId r) = Some d'"
    unfolding s' d' using assms(2) by (simp add: doc_get_doc_update_same)
  show "\<forall>x. x \<noteq> u_couponId r \<longrightarrow> doc_get (coupons s') x = doc_get (coupons s) x"
    unfolding s' by (simp add: doc_get_doc_update_other)
  show "sites s' = sites s"
    unfolding s' by simp
qed

lemma buildCleanUpdates_entries:
  "buildCleanUpdates (Object_entries u) now
     = definedEntries (Object_entries u) @ [SetUpdatedAt now]"
  by (simp add: buildCleanUpdates_def clean_updates_eq)

lemma buildCleanUpdates_null_undefined:
  "buildCleanUpdates [Some (SetMinPurchase None), None] now
     = [SetMinPurchase None, SetUpdatedAt now]"
  by (simp add: buildCleanUpdates_def assign_def)

text \<open>
  C7. After a successful update of a stored coupon \<open>d\<close>, the record returned and stored
  is \<open>d\<close> in which every key of the request has its new value (the code in upper case)
  and \<open>updatedAt\<close> is the time of the update: a key that is absent keeps the stored
  value, \<open>minPurchase\<close> or \<open>maxUses\<close> set to \<^verbatim>\<open>null\<close> (\<open>Some None\<close>) clears the field, and a
  number replaces it; every other field of \<open>d\<close>, every other coupon and the sites are
  as before. The two cases stay apart in the update set as well: \<^verbatim>\<open>buildCleanUpdates\<close>
  keeps an entry whose value is \<^verbatim>\<open>null\<close> and drops one whose value is \<^verbatim>\<open>undefined\<close>.
\<close>

theorem update_merges_only_given_keys:
  "(updateCouponHandler now s r = (Data d', s')
      \<and> doc_get (coupons s) (u_couponId r) = Some d
    \<longrightarrow> d' = d\<lparr> code := (case upd_code (u_updates r) of
                            None \<Rightarrow> code d | Some c \<Rightarrow> toUpperCase c),
                 discountType := nullish (upd_discountType (u_updates r)) (discountType d),
                 discountValue := nullish (upd_discountValue (u_updates r)) (discountValue d),
                 minPurchase := (case upd_minPurchase (u_updates r) of
                                   None \<Rightarrow> minPurchase d
                                 | Some None \<Rightarrow> None
                                 | Some (Some x) \<Rightarrow> Some x),
                 maxUses := (case upd_maxUses (u_updates r) of
                               None \<Rightarrow> maxUses d
                             | Some None \<Rightarrow> None
                             | Some (Some x) \<Rightarrow> Some x),
                 validFrom := nullish (upd_validFrom (u_updates r)) (validFrom d),
                 validUntil := nullish (upd_validUntil (u_updates r)) (validUntil d),
                 isActive := nullish (upd_isActive (u_updates r)) (isActive d),
                 updatedAt := Some now \<rparr>
        \<and> doc_get (coupons s') (u_couponId r) = Some d'
        \<and> (\<forall>x. x \<noteq> u_couponId r \<longrightarrow> doc_get (coupons s') x = doc_get (coupons s) x)
        \<and> sites s' = sites s)
   \<and> buildCleanUpdates (Object_entries u) now
       = definedEntries (Object_entries u) @ [SetUpdatedAt now]
   \<and> buildCleanUpdates [Some (SetMinPurchase None), None] now
       = [SetMinPurchase None, SetUpdatedAt now]"
proof -
  have n1: "nullish (map_option toUpperCase x) y
            = (case x of None \<Rightarrow> y | Some c \<Rightarrow> toUpperCase c)" for x y
    by (cases x) simp_all
  have n2: "nullish x y = (case x of None \<Rightarrow> y | Some None \<Rightarrow> None | Some (Some v) \<Rightarrow> Some v)"
    for x :: "'b option option" and y
    by (cases x) (auto split: option.split)
  show ?thesis
    using update_frame [of now s r d' s' d]
    by (simp add: buildCleanUpdates_entries buildCleanUpdates_null_undefined
        n1 n2 [of "upd_minPurchase (u_updates r)"] n2 [of "upd_maxUses (u_updates r)"])
qed

theorem update_merges_only_given_keys_witness:
  "updateCouponHandler 600 exampleStore
     \<lparr>u_siteId = ''site1'', u_couponId = ''coupon003'',
      u_updates = \<lparr>upd_code = Some ''nuevo'', upd_discountType = None,
        upd_discountValue = None, upd_minPurchase = Some (Some 2000), upd_maxUses = Some None,
        upd_validFrom = None, upd_validUntil = None, upd_isActive = None\<rparr>\<rparr>
    = (Data (fixed50000Coupon\<lparr>code := ''NUEVO'', minPurchase := Some 2000, maxUses := None,
               updatedAt := Some 600\<rparr>),
       exampleStore\<lparr>coupons :=
         [exampleCoupon, fixed5000Coupon,
          fixed50000Coupon\<lparr>code := ''NUEVO'', minPurchase := Some 2000, maxUses := None,
            updatedAt := Some 600\<rparr>,
          oneUseCoupon, exhaustedCoupon]\<rparr>)
   \<and> doc_get (coupons exampleStore) ''coupon003'' = Some fixed50000Coupon
   \<and> usedCount (fixed50000Coupon\<lparr>code := ''NUEVO'', minPurchase := Some 2000, maxUses := None,
        updatedAt := Some 600\<rparr>) = 2
   \<and> doc_get (coupons (exampleStore\<lparr>coupons :=
         [exampleCoupon, fixed5000Coupon,
          fixed50000Coupon\<lparr>code := ''NUEVO'', minPurchase := Some 2000, maxUses := None,
            updatedAt := Some 600\<rparr>,
          oneUseCoupon, exhaustedCoupon]\<rparr>)) ''coupon004'' = Some oneUseCoupon"
proof -
  let ?r = "\<lparr>u_siteId = ''site1'', u_couponId = ''coupon003'',
      u_updates = \<lparr>upd_code = Some ''nuevo'', upd_discountType = None,
        upd_discountValue = None, upd_minPurchase = Some (Some 2000), upd_maxUses = Some None,
        upd_validFrom = None, upd_validUntil = None, upd_isActive = None\<rparr>\<rparr>"
  let ?d' = "fixed50000Coupon\<lparr>code := ''NUEVO'', minPurchase := Some 2000, maxUses := None,
               updatedAt := Some 600\<rparr>"
  let ?s' = "exampleStore\<lparr>coupons :=
         [exampleCoupon, fixed5000Coupon, ?d', oneUseCoupon, exhaustedCoupon]\<rparr>"
  have h1: "updateCouponHandler 600 exampleStore ?r = (Data ?d', ?s')"
    by code_simp
  have h2: "doc_get (coupons exampleStore) ''coupon003'' = Some fixed50000Coupon"
    by code_simp
  have h3: "doc_get (coupons exampleStore) ''coupon004'' = Some oneUseCoupon"
    by code_simp
  from h2 have h2': "doc_get (coupons exampleStore) (u_couponId ?r) = Some fixed50000Coupon"
    by simp
  note t = update_merges_only_given_keys
    [of 600 exampleStore ?r ?d' ?s' fixed50000Coupon, THEN conjunct1, THEN mp,
      OF conjI [OF h1 h2']]
  from t [THEN conjunct1] have "usedCount ?d' = usedCount fixed50000Coupon"
    by (rule ssubst) simp
  then have "usedCount ?d' = 2"
    by (simp add: fixed50000Coupon_def)
  moreover
  from t [THEN conjunct2, THEN conjunct2, THEN conjunct1]
  have "doc_get (coupons ?s') ''coupon004'' = doc_get (coupons exampleStore) ''coupon004''"
    by simp
  from this h3 have "doc_get (coupons ?s') ''coupon004'' = Some oneUseCoupon"
    by (rule trans)
  ultimately show ?thesis
    using h1 h2 by (intro conjI)
qed

section \<open>Cross-field rules of an update\<close>





lemma userId_applyField [simp]: "userId (applyField f d) = userId d"
  by (cases f) simp_all

lemma createdAt_applyField [simp]: "createdAt (applyField f d) = createdAt d"
  by (cases f) simp_all

lemma siteId_applyField [simp]: "siteId (applyField f d) = siteId d"
  by (cases f) simp_all

lemma userId_fold_applyField [simp]: "userId (fold applyField fs d) = userId d"
  by (induction fs arbitrary: d) simp_all

lemma createdAt_fold_applyField [simp]: "createdAt (fold applyField fs d) = createdAt d"
  by (induction fs arbitrary: d) simp_all

lemma siteId_fold_applyField [simp]: "siteId (fold applyField fs d) = siteId d"
  by (induction fs arbitrary: d) simp_all










section \<open>Uniqueness of a code within a site\<close>









section \<open>The usage cap\<close>





























section \<open>The two versions of the handlers\<close>




















end
